theory Spec2Isabelle
  imports Complex_Main "HOL-Library.Sublist"
begin

section \<open>Python values shared by the model\<close>

text \<open>
  A raised Python exception (an instance of \<^verbatim>\<open>Exception\<close>): the name of its class and
  the text \<^verbatim>\<open>str(e)\<close> gives. Every function of the model that can raise returns
  \<open>py_exception + 'a\<close>, with \<open>Inl\<close> for the exception.
\<close>

datatype py_exception = PyException (exc_class: string) (exc_str: string)

text \<open>A Python dict with string keys, as an association list.\<close>

type_synonym py_dict = "(string \<times> string) list"

section \<open>The inference provider's data (the objects \<^verbatim>\<open>ai_generator.py\<close> reads and builds)\<close>

text \<open>
  A content block of a provider response. \<^verbatim>\<open>block.type\<close> is \<open>block_type\<close>; a tool-use
  block carries \<^verbatim>\<open>id\<close>, \<^verbatim>\<open>name\<close> and \<^verbatim>\<open>input\<close>; only a text block has the
  attribute \<^verbatim>\<open>text\<close>.
\<close>

datatype content_block =
    TextBlock (block_text: string)
  | ToolUseBlock (block_id: string) (block_name: string) (block_input: py_dict)
  | ThinkingBlock (block_thinking: string)

fun block_type :: "content_block \<Rightarrow> string" where
  "block_type (TextBlock t) = ''text''"
| "block_type (ToolUseBlock i n a) = ''tool_use''"
| "block_type (ThinkingBlock t) = ''thinking''"

record response =
  stop_reason :: string
  content :: "content_block list"

text \<open>The dict \<^verbatim>\<open>{"type": "tool_result", "tool_use_id": ..., "content": ...}\<close>.\<close>

record tool_result =
  tool_use_id :: string
  result_content :: string

text \<open>
  A turn of the conversation, the dict \<^verbatim>\<open>{"role": ..., "content": ...}\<close>. Its content is
  the question (a string), the content blocks of a response, or a list of tool results.
\<close>

datatype message_content =
    Text string
  | Blocks "content_block list"
  | ToolResults "tool_result list"

record message =
  role :: string
  message_content :: message_content

text \<open>
  The keyword arguments of \<^verbatim>\<open>client.messages.create\<close>. A key that is not passed
  (\<^verbatim>\<open>tools\<close>, \<^verbatim>\<open>tool_choice\<close>) is \<open>None\<close>.
\<close>

record api_params =
  param_model :: string
  temperature :: int
  max_tokens :: nat
  messages :: "message list"
  system :: string
  tools :: "py_dict list option"
  tool_choice :: "py_dict option"

text \<open>
  The two collaborators are opaque and stateful: each call takes the state of the world
  and returns the new one, with the value returned or the exception raised.
  \<^item> \<^verbatim>\<open>client.messages.create(**api_params)\<close>;
  \<^item> \<^verbatim>\<open>tool_manager.execute_tool(name, **input)\<close>.
\<close>

type_synonym 'w provider = "api_params \<Rightarrow> 'w \<Rightarrow> (py_exception + response) \<times> 'w"

type_synonym 'w tool_manager = "string \<Rightarrow> py_dict \<Rightarrow> 'w \<Rightarrow> (py_exception + string) \<times> 'w"

section \<open>\<^verbatim>\<open>class AIGenerator\<close>\<close>

record 'w ai_generator =
  client :: "'w provider"
  model :: string

definition MAX_TOOL_ROUNDS :: nat where
  "MAX_TOOL_ROUNDS = 2"

text \<open>The em dash of the prompt, U+2014, as its three UTF-8 bytes.\<close>

definition em_dash :: string where
  "em_dash = [CHR 0xE2, CHR 0x80, CHR 0x94]"

definition SYSTEM_PROMPT :: string where
  \<open>SYSTEM_PROMPT =
     '' You are an AI assistant specialized in course materials and educational content with access to a comprehensive search tool for course information.\<newline>'' @
     ''\<newline>'' @
     ''Tool Usage:\<newline>'' @
     ''- Use `get_course_outline` for questions about course structure, lesson lists, or what topics a course covers\<newline>'' @
     ''- Use `search_course_content` for questions about specific course content or detailed educational material\<newline>'' @
     ''- **Up to 2 sequential tool calls per query** '' @ em_dash @ '' use a second call only when the first result reveals information needed to form a better search (e.g., get a course outline, then search for related content using a lesson title found in the outline). Do not use both calls for redundant searches.\<newline>'' @
     ''- Synthesize tool results into accurate, fact-based responses\<newline>'' @
     ''- If a tool yields no results, state this clearly without offering alternatives\<newline>'' @
     ''\<newline>'' @
     ''When responding to outline queries, include the course title, course link, and all lesson numbers with their titles.\<newline>'' @
     ''\<newline>'' @
     ''Response Protocol:\<newline>'' @
     ''- **General knowledge questions**: Answer using existing knowledge without searching\<newline>'' @
     ''- **Course-specific questions**: Search first, then answer\<newline>'' @
     ''- **No meta-commentary**:\<newline>'' @
     '' - Provide direct answers only '' @ em_dash @ '' no reasoning process, search explanations, or question-type analysis\<newline>'' @
     '' - Do not mention "based on the search results"\<newline>'' @
     ''\<newline>'' @
     ''\<newline>'' @
     ''All responses must be:\<newline>'' @
     ''1. **Brief, Concise and focused** - Get to the point quickly\<newline>'' @
     ''2. **Educational** - Maintain instructional value\<newline>'' @
     ''3. **Clear** - Use accessible language\<newline>'' @
     ''4. **Example-supported** - Include relevant examples when they aid understanding\<newline>'' @
     ''Provide only the direct answer to what was asked.\<newline>''\<close>

text \<open>
  \<^verbatim>\<open>self.base_params\<close> with the two arguments every call passes
  (\<^verbatim>\<open>**self.base_params, messages=messages, system=system_content\<close>).
\<close>

definition base_params :: "'w ai_generator \<Rightarrow> message list \<Rightarrow> string \<Rightarrow> api_params" where
  "base_params self msgs system_content =
     \<lparr>param_model = model self, temperature = 0, max_tokens = 800,
      messages = msgs, system = system_content, tools = None, tool_choice = None\<rparr>"

text \<open>
  Lines 66-70. A string is true in Python when it is not empty, so \<^verbatim>\<open>None\<close> and
  \<^verbatim>\<open>""\<close> both take the \<^verbatim>\<open>else\<close> branch.
\<close>

fun build_system_content :: "string option \<Rightarrow> string" where
  "build_system_content None = SYSTEM_PROMPT"
| "build_system_content (Some []) = SYSTEM_PROMPT"
| "build_system_content (Some (c # cs)) =
     SYSTEM_PROMPT @ ''\<newline>\<newline>Previous conversation:\<newline>'' @ (c # cs)"

text \<open>
  \<^verbatim>\<open>response.content[0].text\<close>: IndexError on an empty content list, AttributeError
  when the first block is not a text block.
\<close>

fun content0_text :: "response \<Rightarrow> py_exception + string" where
  "content0_text r =
     (case content r of
        [] \<Rightarrow> Inl (PyException ''IndexError'' ''list index out of range'')
      | TextBlock t # _ \<Rightarrow> Inr t
      | _ # _ \<Rightarrow> Inl (PyException ''AttributeError'' ''object has no attribute 'text' ''))"

text \<open>
  Lines 88-90: \<^verbatim>\<open>if tools:\<close> is true for a list that is neither \<^verbatim>\<open>None\<close> nor empty.
\<close>

fun round_params :: "'w ai_generator \<Rightarrow> py_dict list option \<Rightarrow> message list \<Rightarrow> string \<Rightarrow> api_params" where
  "round_params self (Some (t # ts)) msgs system_content =
     (base_params self msgs system_content)
       \<lparr>tools := Some (t # ts), tool_choice := Some [(''type'', ''auto'')]\<rparr>"
| "round_params self _ msgs system_content = base_params self msgs system_content"

text \<open>
  Lines 102-115, the loop over \<^verbatim>\<open>response.content\<close>: each tool-use block is executed
  inside its own \<^verbatim>\<open>try\<close>, and one entry is appended to \<^verbatim>\<open>tool_results\<close>.
\<close>

fun execute_tool_calls ::
  "'w tool_manager \<Rightarrow> content_block list \<Rightarrow> tool_result list \<Rightarrow> 'w \<Rightarrow> tool_result list \<times> 'w" where
  "execute_tool_calls tool_manager [] tool_results w = (tool_results, w)"
| "execute_tool_calls tool_manager (block # blocks) tool_results w =
     (if block_type block = ''tool_use'' then
        (case tool_manager (block_name block) (block_input block) w of
           (outcome, w') \<Rightarrow>
             let result = (case outcome of
                             Inr r \<Rightarrow> r
                           | Inl e \<Rightarrow> ''Tool error: '' @ exc_str e)
             in execute_tool_calls tool_manager blocks
                  (tool_results @ [\<lparr>tool_use_id = block_id block, result_content = result\<rparr>]) w')
      else execute_tool_calls tool_manager blocks tool_results w)"

text \<open>
  Lines 82-123: the loop \<^verbatim>\<open>for round_num in range(self.MAX_TOOL_ROUNDS)\<close>, by recursion on
  the number of rounds that remain, and the synthesis call after it. An exception of the
  provider, or of reading the text of a response, is not caught: it ends the query.
\<close>

fun tool_rounds ::
  "'w ai_generator \<Rightarrow> py_dict list option \<Rightarrow> 'w tool_manager \<Rightarrow> string \<Rightarrow> nat \<Rightarrow> message list \<Rightarrow> 'w
     \<Rightarrow> (py_exception + string) \<times> 'w" where
  "tool_rounds self tls tool_manager system_content 0 msgs w =
     (case client self (base_params self msgs system_content) w of
        (Inl e, w') \<Rightarrow> (Inl e, w')
      | (Inr final_response, w') \<Rightarrow> (content0_text final_response, w'))"
| "tool_rounds self tls tool_manager system_content (Suc n) msgs w =
     (case client self (round_params self tls msgs system_content) w of
        (Inl e, w1) \<Rightarrow> (Inl e, w1)
      | (Inr resp, w1) \<Rightarrow>
          if stop_reason resp \<noteq> ''tool_use'' then (content0_text resp, w1)
          else
            (case execute_tool_calls tool_manager (content resp) []
                    w1 of
               (tool_results, w2) \<Rightarrow>
                 tool_rounds self tls tool_manager system_content n
                   (msgs @ [\<lparr>role = ''assistant'', message_content = Blocks (content resp)\<rparr>]
                         @ [\<lparr>role = ''user'', message_content = ToolResults tool_results\<rparr>]) w2))"

text \<open>
  \<^verbatim>\<open>AIGenerator.generate_response\<close>. \<^verbatim>\<open>tool_manager\<close> is an object or \<^verbatim>\<open>None\<close>. The
  argument \<^verbatim>\<open>tools\<close> and the variable \<^verbatim>\<open>messages\<close> are written \<open>tls\<close> and \<open>msgs\<close>: the
  two names are fields of \<open>api_params\<close>. The last argument is the state of the world
  in which the provider and the tools run.
\<close>

definition generate_response ::
  "'w ai_generator \<Rightarrow> string \<Rightarrow> string option \<Rightarrow> py_dict list option \<Rightarrow> 'w tool_manager option \<Rightarrow> 'w
     \<Rightarrow> (py_exception + string) \<times> 'w" where
  "generate_response self query conversation_history tls tool_manager w =
     (let system_content = build_system_content conversation_history;
          msgs = [\<lparr>role = ''user'', message_content = Text query\<rparr>]
      in case tool_manager of
           None \<Rightarrow>
             (case client self (base_params self msgs system_content) w of
                (Inl e, w') \<Rightarrow> (Inl e, w')
              | (Inr resp, w') \<Rightarrow> (content0_text resp, w'))
         | Some tm \<Rightarrow> tool_rounds self tls tm system_content MAX_TOOL_ROUNDS msgs w)"

section \<open>Observing a query: the calls it makes\<close>

text \<open>
  The properties below count the calls of a query and look at their arguments. A log in
  the state of the world records them, the way the tests read \<^verbatim>\<open>call_args_list\<close> of a
  mock: the provider and the tool manager are wrapped so that each call appends one event,
  with its arguments and its outcome. The wrapped collaborators behave as the ones they
  wrap, and the observed query returns what the query returns (\<open>observe_transparent\<close>).
\<close>

datatype event =
    ApiCall api_params "py_exception + response"
  | ToolCall string py_dict "py_exception + string"

definition logged_client :: "'w provider \<Rightarrow> ('w \<times> event list) provider" where
  "logged_client create params = (\<lambda>(w, evs).
     case create params w of (r, w') \<Rightarrow> (r, (w', evs @ [ApiCall params r])))"

definition logged_tool_manager :: "'w tool_manager \<Rightarrow> ('w \<times> event list) tool_manager" where
  "logged_tool_manager execute_tool nm inp = (\<lambda>(w, evs).
     case execute_tool nm inp w of (r, w') \<Rightarrow> (r, (w', evs @ [ToolCall nm inp r])))"

definition logged_generator :: "'w ai_generator \<Rightarrow> ('w \<times> event list) ai_generator" where
  "logged_generator self = \<lparr>client = logged_client (client self), model = model self\<rparr>"

text \<open>One query, observed from an empty log: the result, the final world, the events.\<close>

definition observe ::
  "'w ai_generator \<Rightarrow> string \<Rightarrow> string option \<Rightarrow> py_dict list option \<Rightarrow> 'w tool_manager option \<Rightarrow> 'w
     \<Rightarrow> (py_exception + string) \<times> 'w \<times> event list" where
  "observe self query conversation_history tls tool_manager w =
     generate_response (logged_generator self) query conversation_history tls
       (map_option logged_tool_manager tool_manager) (w, [])"

definition answer ::
  "'w ai_generator \<Rightarrow> string \<Rightarrow> string option \<Rightarrow> py_dict list option \<Rightarrow> 'w tool_manager option \<Rightarrow> 'w
     \<Rightarrow> py_exception + string" where
  "answer self query conversation_history tls tool_manager w =
     fst (observe self query conversation_history tls tool_manager w)"

definition events ::
  "'w ai_generator \<Rightarrow> string \<Rightarrow> string option \<Rightarrow> py_dict list option \<Rightarrow> 'w tool_manager option \<Rightarrow> 'w
     \<Rightarrow> event list" where
  "events self query conversation_history tls tool_manager w =
     snd (snd (observe self query conversation_history tls tool_manager w))"

fun api_calls :: "event list \<Rightarrow> (api_params \<times> (py_exception + response)) list" where
  "api_calls [] = []"
| "api_calls (ApiCall p r # es) = (p, r) # api_calls es"
| "api_calls (ToolCall n i r # es) = api_calls es"

fun tool_executions :: "event list \<Rightarrow> (string \<times> py_dict \<times> (py_exception + string)) list" where
  "tool_executions [] = []"
| "tool_executions (ApiCall p r # es) = tool_executions es"
| "tool_executions (ToolCall n i r # es) = (n, i, r) # tool_executions es"

text \<open>What a query returns when its last inference call had this outcome.\<close>

fun outcome_text :: "py_exception + response \<Rightarrow> py_exception + string" where
  "outcome_text (Inl e) = Inl e"
| "outcome_text (Inr r) = content0_text r"

section \<open>Vocabulary of the properties\<close>

text \<open>The user turn that carries the question (line 72).\<close>

definition user_turn :: "string \<Rightarrow> message" where
  "user_turn query = \<lparr>role = ''user'', message_content = Text query\<rparr>"

text \<open>The tool-call requests of a turn, in the order of the blocks.\<close>

definition tool_uses :: "content_block list \<Rightarrow> content_block list" where
  "tool_uses blocks = filter (\<lambda>b. block_type b = ''tool_use'') blocks"

text \<open>The text that stands for the outcome of one tool call: its value, or the converted error.\<close>

fun render_outcome :: "py_exception + string \<Rightarrow> string" where
  "render_outcome (Inr r) = r"
| "render_outcome (Inl e) = ''Tool error: '' @ exc_str e"

definition result_entry :: "content_block \<Rightarrow> py_exception + string \<Rightarrow> tool_result" where
  "result_entry b out = \<lparr>tool_use_id = block_id b, result_content = render_outcome out\<rparr>"

definition tool_call_event :: "content_block \<Rightarrow> py_exception + string \<Rightarrow> event" where
  "tool_call_event b out = ToolCall (block_name b) (block_input b) out"

text \<open>The two tool arguments of a call of a round, for a given \<^verbatim>\<open>tools\<close> argument.\<close>

fun offered_tools :: "py_dict list option \<Rightarrow> py_dict list option \<times> py_dict option" where
  "offered_tools (Some (t # ts)) = (Some (t # ts), Some [(''type'', ''auto'')])"
| "offered_tools _ = (None, None)"

text \<open>A turn whose content is a plain string, as the question is.\<close>

definition is_text_turn :: "message \<Rightarrow> bool" where
  "is_text_turn m = (case message_content m of Text t \<Rightarrow> True | _ \<Rightarrow> False)"

text \<open>
  A tool manager that never raises: where \<open>tm\<close> raises, it returns the text the
  orchestrator would put in place of the exception.
\<close>

definition tool_errors_as_text :: "'w tool_manager \<Rightarrow> 'w tool_manager" where
  "tool_errors_as_text tm nm inp w =
     (case tm nm inp w of (out, w') \<Rightarrow> (Inr (render_outcome out), w'))"

text \<open>The arguments of the first inference call of a query.\<close>

definition first_params ::
  "'w ai_generator \<Rightarrow> string \<Rightarrow> string option \<Rightarrow> py_dict list option \<Rightarrow> 'w tool_manager option
     \<Rightarrow> api_params" where
  "first_params self query conversation_history tls tool_manager =
     (case tool_manager of
        None \<Rightarrow> base_params self [user_turn query] (build_system_content conversation_history)
      | Some tm \<Rightarrow> round_params self tls [user_turn query] (build_system_content conversation_history))"

section \<open>The Similarity Store and the Retrieval Tool\<close>

text \<open>
  \<^verbatim>\<open>vector_store.py\<close> and \<^verbatim>\<open>search_tools.py\<close> are not among the source files; the tests
  import them. Their operations are modelled from the specification (sections 3, 4.1 and
  4.2) and from what the tests show of their interface.
\<close>

record fragment_metadata =
  course_title :: string
  lesson_number :: "int option"

text \<open>
  \<^verbatim>\<open>SearchResults(documents, metadata, distances, error=None)\<close>, as the tests construct it.
\<close>

record search_results =
  documents :: "string list"
  metadata :: "fragment_metadata list"
  distances :: "real list"
  error :: "string option"

text \<open>\<^verbatim>\<open>SearchResults.empty(error_msg)\<close>, as the tests call it.\<close>

definition empty_results :: "string \<Rightarrow> search_results" where
  "empty_results error_msg = \<lparr>documents = [], metadata = [], distances = [], error = Some error_msg\<rparr>"

datatype search_filter =
    CourseFilter string
  | LessonFilter int
  | CourseAndLessonFilter string int

text \<open>
  The vector index behind the store: the query text, the number of results and the filter
  give the aligned documents, metadata and distances, or the query raises.
\<close>

type_synonym collection =
  "string \<Rightarrow> nat \<Rightarrow> search_filter option
     \<Rightarrow> py_exception + (string list \<times> fragment_metadata list \<times> real list)"

record vector_store =
  course_content :: collection
  max_results :: nat

text \<open>
  Modelled from the spec: the filter of \<^verbatim>\<open>VectorStore.search\<close>, which is not in the
  source files. Section 4.1: the filter expression is built "from whichever of {course,
  lesson} are present (both, either, or neither)".
\<close>

fun build_filter :: "string option \<Rightarrow> int option \<Rightarrow> search_filter option" where
  "build_filter None None = None"
| "build_filter (Some c) None = Some (CourseFilter c)"
| "build_filter None (Some l) = Some (LessonFilter l)"
| "build_filter (Some c) (Some l) = Some (CourseAndLessonFilter c l)"

text \<open>
  Modelled from the spec: the query of the underlying index, which is not in the source
  files. Section 4.1: a requested result count of zero is one "which the underlying index
  implementation rejects"; the message is the one the test gives the mocked index. For any
  other count the collection answers, or fails, as it will.
\<close>

definition zero_results_message :: string where
  "zero_results_message = ''Number of requested results 0 is less than the smallest sample size 1''"

definition index_query ::
  "collection \<Rightarrow> string \<Rightarrow> nat \<Rightarrow> search_filter option
     \<Rightarrow> py_exception + (string list \<times> fragment_metadata list \<times> real list)" where
  "index_query coll query_text n_results flt =
     (if n_results = 0 then Inl (PyException ''ValueError'' zero_results_message)
      else coll query_text n_results flt)"

text \<open>
  Modelled from the spec: \<^verbatim>\<open>VectorStore.search\<close>, which is not in the source files.
  Section 4.1: it takes the query, an optional course filter, an optional lesson filter and
  an optional result count that "defaults to a configured maximum"; "any failure during the
  underlying query ... is caught locally and converted into a SearchResult set carrying
  only the error field, with a descriptive message beginning "Search error: "".
\<close>

definition search ::
  "vector_store \<Rightarrow> string \<Rightarrow> string option \<Rightarrow> int option \<Rightarrow> nat option \<Rightarrow> search_results" where
  "search self query_text course_name lesson limit =
     (let flt = build_filter course_name lesson;
          search_limit = (case limit of Some n \<Rightarrow> n | None \<Rightarrow> max_results self)
      in case index_query (course_content self) query_text search_limit flt of
           Inl e \<Rightarrow> empty_results (''Search error: '' @ exc_str e)
         | Inr (docs, metas, dists) \<Rightarrow>
             \<lparr>documents = docs, metadata = metas, distances = dists, error = None\<rparr>)"














text \<open>A collection that holds one fragment and returns it for any query.\<close>

definition one_fragment_collection :: collection where
  "one_fragment_collection query_text n_results flt =
     Inr ([''Python is a versatile programming language.''],
          [\<lparr>course_title = ''Python Fundamentals'', lesson_number = Some 1\<rparr>],
          [1 / 10])"

section \<open>Mock collaborators, as the tests build them\<close>

text \<open>
  A provider with \<^verbatim>\<open>side_effect = [r1, r2, ...]\<close>: the world is the list of responses
  still to give; a call on the empty list raises \<^verbatim>\<open>StopIteration\<close>.
\<close>

fun scripted_create :: "response list provider" where
  "scripted_create params [] = (Inl (PyException ''StopIteration'' []), [])"
| "scripted_create params (r # rs) = (Inr r, rs)"

definition generator :: "response list ai_generator" where
  "generator = \<lparr>client = scripted_create, model = ''test-model''\<rparr>"

text \<open>A provider that cannot be reached: every call raises.\<close>

definition unreachable_create :: "unit provider" where
  "unreachable_create params w = (Inl (PyException ''APIConnectionError'' ''Connection error.''), w)"

definition offline_generator :: "unit ai_generator" where
  "offline_generator = \<lparr>client = unreachable_create, model = ''test-model''\<rparr>"

definition text_response :: "string \<Rightarrow> response" where
  "text_response t = \<lparr>stop_reason = ''end_turn'', content = [TextBlock t]\<rparr>"

definition tool_use_response :: "string \<Rightarrow> string \<Rightarrow> py_dict \<Rightarrow> response" where
  "tool_use_response tool_name tool_id inputs =
     \<lparr>stop_reason = ''tool_use'', content = [ToolUseBlock tool_id tool_name inputs]\<rparr>"

text \<open>\<^verbatim>\<open>execute_tool.return_value = "tool output"\<close>.\<close>

definition returning_tool_manager :: "'w tool_manager" where
  "returning_tool_manager nm inp w = (Inr ''tool output'', w)"

text \<open>\<^verbatim>\<open>execute_tool.side_effect = Exception("search failed")\<close>.\<close>

definition failing_tool_manager :: "'w tool_manager" where
  "failing_tool_manager nm inp w = (Inl (PyException ''Exception'' ''search failed''), w)"

text \<open>A tool manager that knows one tool and raises for any other name.\<close>

definition one_tool_manager :: "'w tool_manager" where
  "one_tool_manager nm inp w =
     (if nm = ''search_course_content'' then (Inr ''search results here'', w)
      else (Inl (PyException ''ValueError'' (''Tool '' @ nm @ '' not found'')), w))"

definition search_tools :: "py_dict list" where
  "search_tools = [[(''name'', ''search_course_content'')]]"

text \<open>A response that asks for two tools after some text.\<close>

definition two_tool_response :: response where
  "two_tool_response =
     \<lparr>stop_reason = ''tool_use'',
      content = [TextBlock ''Let me look.'',
                 ToolUseBlock ''t1'' ''search_course_content'' [(''query'', ''python'')],
                 ToolUseBlock ''t2'' ''get_course_outline'' [(''course_name'', ''MCP'')]]\<rparr>"

text \<open>A store configured with a maximum of zero results.\<close>

definition zero_store :: vector_store where
  "zero_store = \<lparr>course_content = one_fragment_collection, max_results = 0\<rparr>"



section \<open>Lemmas on the observed run\<close>

lemma logged_client_apply:
  "logged_client create params (w, evs) =
     (fst (create params w), (snd (create params w), evs @ [ApiCall params (fst (create params w))]))"
  by (simp add: logged_client_def split: prod.splits)


lemma api_calls_append: "api_calls (xs @ ys) = api_calls xs @ api_calls ys"
  by (induction xs rule: api_calls.induct) simp_all

lemma tool_executions_append: "tool_executions (xs @ ys) = tool_executions xs @ tool_executions ys"
  by (induction xs rule: tool_executions.induct) simp_all

lemma logged_tool_manager_apply:
  "logged_tool_manager tm nm inp (w, evs) =
     (fst (tm nm inp w), (snd (tm nm inp w), evs @ [ToolCall nm inp (fst (tm nm inp w))]))"
  by (simp add: logged_tool_manager_def split: prod.splits)

lemma execute_tool_calls_transparent:
  "fst (execute_tool_calls (logged_tool_manager tm) bs acc (w, evs)) = fst (execute_tool_calls tm bs acc w)
   \<and> fst (snd (execute_tool_calls (logged_tool_manager tm) bs acc (w, evs))) = snd (execute_tool_calls tm bs acc w)"
  by (induction bs arbitrary: acc w evs)
     (simp_all add: logged_tool_manager_apply Let_def split: prod.splits)

lemma execute_tool_calls_api_calls:
  "api_calls (snd (snd (execute_tool_calls (logged_tool_manager tm) bs acc (w, evs)))) = api_calls evs"
  by (induction bs arbitrary: acc w evs)
     (simp_all add: logged_tool_manager_apply Let_def api_calls_append split: prod.splits)


lemma base_params_logged [simp]: "base_params (logged_generator self) = base_params self"
  by (simp add: base_params_def logged_generator_def fun_eq_iff)

lemma round_params_logged [simp]: "round_params (logged_generator self) tls = round_params self tls"
proof -
  have "round_params (logged_generator self) tls msgs sc = round_params self tls msgs sc" for msgs sc
    by (cases "(self, tls, msgs, sc)" rule: round_params.cases) simp_all
  then show ?thesis by (simp add: fun_eq_iff)
qed

lemma client_logged [simp]: "client (logged_generator self) = logged_client (client self)"
  by (simp add: logged_generator_def)

lemma tool_rounds_calls:
  "tool_rounds (logged_generator self) tls (logged_tool_manager tm) sc n msgs (w, evs) = (res, w', evs')
   \<Longrightarrow> length (api_calls evs) < length (api_calls evs')
     \<and> length (api_calls evs') \<le> length (api_calls evs) + n + 1
     \<and> res = outcome_text (snd (last (api_calls evs')))"
proof (induction n arbitrary: msgs w evs)
  case 0
  then show ?case
    by (auto simp: logged_client_apply api_calls_append split: prod.splits sum.splits)
next
  case (Suc n)
  let ?p = "round_params self tls msgs sc"
  let ?evs1 = "evs @ [ApiCall ?p (fst (client self ?p w))]"
  show ?case
  proof (cases "fst (client self ?p w)")
    case (Inl e)
    with Suc.prems show ?thesis
      by (auto simp: logged_client_apply api_calls_append split: prod.splits sum.splits)
  next
    case (Inr resp)
    show ?thesis
    proof (cases "stop_reason resp = ''tool_use''")
      case False
      with Inr Suc.prems show ?thesis
        by (auto simp: logged_client_apply api_calls_append split: prod.splits sum.splits)
    next
      case True
      obtain trs w2 evs2 where ex:
        "execute_tool_calls (logged_tool_manager tm) (content resp) [] (snd (client self ?p w), ?evs1) = (trs, w2, evs2)"
        by (metis prod_cases3)
      have a: "api_calls evs2 = api_calls ?evs1"
        using execute_tool_calls_api_calls [of tm "content resp" "[]" "snd (client self ?p w)" ?evs1] ex by simp
      from Suc.prems Inr True ex have
        "tool_rounds (logged_generator self) tls (logged_tool_manager tm) sc n
           (msgs @ [\<lparr>role = ''assistant'', message_content = Blocks (content resp)\<rparr>]
                 @ [\<lparr>role = ''user'', message_content = ToolResults trs\<rparr>]) (w2, evs2) = (res, w', evs')"
        by (simp add: logged_client_apply)
      from Suc.IH [OF this] a show ?thesis
        by (simp add: api_calls_append)
    qed
  qed
qed

lemma execute_tool_calls_shape:
  "\<exists>outs w'. length outs = length (tool_uses bs) \<and>
     execute_tool_calls (logged_tool_manager tm) bs acc (w, evs) =
       (acc @ map2 result_entry (tool_uses bs) outs, w', evs @ map2 tool_call_event (tool_uses bs) outs)"
proof (induction bs arbitrary: acc w evs)
  case Nil
  show ?case by (simp add: tool_uses_def)
next
  case (Cons b bs)
  show ?case
  proof (cases "block_type b = ''tool_use''")
    case False
    with Cons.IH [of acc w evs] show ?thesis by (simp add: tool_uses_def)
  next
    case True
    let ?out = "fst (tm (block_name b) (block_input b) w)"
    let ?w1 = "snd (tm (block_name b) (block_input b) w)"
    let ?acc1 = "acc @ [result_entry b ?out]"
    let ?evs1 = "evs @ [tool_call_event b ?out]"
    from Cons.IH [of ?acc1 ?w1 ?evs1] obtain outs w' where
      len: "length outs = length (tool_uses bs)" and
      eq: "execute_tool_calls (logged_tool_manager tm) bs ?acc1 (?w1, ?evs1) =
             (?acc1 @ map2 result_entry (tool_uses bs) outs, w',
              ?evs1 @ map2 tool_call_event (tool_uses bs) outs)"
      by blast
    have render: "(case ?out of Inr r \<Rightarrow> r | Inl e \<Rightarrow> ''Tool error: '' @ exc_str e) = render_outcome ?out"
      by (cases ?out) simp_all
    have step: "execute_tool_calls (logged_tool_manager tm) (b # bs) acc (w, evs) =
                execute_tool_calls (logged_tool_manager tm) bs ?acc1 (?w1, ?evs1)"
      using True by (simp add: logged_tool_manager_apply render result_entry_def tool_call_event_def)
    have tu: "tool_uses (b # bs) = b # tool_uses bs"
      using True by (simp add: tool_uses_def)
    have "length (?out # outs) = length (tool_uses (b # bs))"
      using len tu by simp
    moreover have "execute_tool_calls (logged_tool_manager tm) (b # bs) acc (w, evs) =
        (acc @ map2 result_entry (tool_uses (b # bs)) (?out # outs), w',
         evs @ map2 tool_call_event (tool_uses (b # bs)) (?out # outs))"
      using step eq tu by simp
    ultimately show ?thesis by blast
  qed
qed

lemma tool_rounds_Suc_cases:
  assumes run: "tool_rounds (logged_generator self) tls (logged_tool_manager tm) sc (Suc n) msgs (w, evs)
                  = (res, w', evs')"
  obtains
    (raised) e w1 where
      "client self (round_params self tls msgs sc) w = (Inl e, w1)"
      "res = Inl e" "w' = w1"
      "evs' = evs @ [ApiCall (round_params self tls msgs sc) (Inl e)]"
  | (direct) resp w1 where
      "client self (round_params self tls msgs sc) w = (Inr resp, w1)"
      "stop_reason resp \<noteq> ''tool_use''"
      "res = content0_text resp" "w' = w1"
      "evs' = evs @ [ApiCall (round_params self tls msgs sc) (Inr resp)]"
  | (tool_use) resp w1 outs w2 where
      "client self (round_params self tls msgs sc) w = (Inr resp, w1)"
      "stop_reason resp = ''tool_use''"
      "length outs = length (tool_uses (content resp))"
      "tool_rounds (logged_generator self) tls (logged_tool_manager tm) sc n
         (msgs @ [\<lparr>role = ''assistant'', message_content = Blocks (content resp)\<rparr>,
                  \<lparr>role = ''user'', message_content =
                     ToolResults (map2 result_entry (tool_uses (content resp)) outs)\<rparr>])
         (w2, evs @ ApiCall (round_params self tls msgs sc) (Inr resp)
                    # map2 tool_call_event (tool_uses (content resp)) outs)
         = (res, w', evs')"
proof -
  let ?p = "round_params self tls msgs sc"
  obtain out w1 where c: "client self ?p w = (out, w1)" by (cases "client self ?p w")
  show thesis
  proof (cases out)
    case (Inl e)
    with run c show thesis by (intro raised [of e w1]) (simp_all add: logged_client_apply)
  next
    case (Inr resp)
    show thesis
    proof (cases "stop_reason resp = ''tool_use''")
      case False
      with run c Inr show thesis by (intro direct [of resp w1]) (simp_all add: logged_client_apply)
    next
      case True
      from execute_tool_calls_shape [of "content resp" tm "[]" w1 "evs @ [ApiCall ?p (Inr resp)]"]
      obtain outs w2 where
        len: "length outs = length (tool_uses (content resp))" and
        eq: "execute_tool_calls (logged_tool_manager tm) (content resp) [] (w1, evs @ [ApiCall ?p (Inr resp)]) =
               (map2 result_entry (tool_uses (content resp)) outs, w2,
                (evs @ [ApiCall ?p (Inr resp)]) @ map2 tool_call_event (tool_uses (content resp)) outs)"
        by auto
      from run c Inr True eq show thesis
        by (intro tool_use [of resp w1 outs w2]) (simp_all add: logged_client_apply len)
    qed
  qed
qed

lemma tool_rounds_0_logged:
  "tool_rounds (logged_generator self) tls (logged_tool_manager tm) sc 0 msgs (w, evs) =
     (outcome_text (fst (client self (base_params self msgs sc) w)),
      snd (client self (base_params self msgs sc) w),
      evs @ [ApiCall (base_params self msgs sc) (fst (client self (base_params self msgs sc) w))])"
  by (simp add: logged_client_apply split: prod.splits sum.splits)

lemma round_params_fields [simp]:
  "messages (round_params self tls msgs sc) = msgs"
  "system (round_params self tls msgs sc) = sc"
  "(tools (round_params self tls msgs sc), tool_choice (round_params self tls msgs sc)) = offered_tools tls"
  by (cases "(self, tls, msgs, sc)" rule: round_params.cases; simp add: base_params_def)+

lemma base_params_fields [simp]:
  "messages (base_params self msgs sc) = msgs"
  "system (base_params self msgs sc) = sc"
  "tools (base_params self msgs sc) = None"
  "tool_choice (base_params self msgs sc) = None"
  by (simp_all add: base_params_def)

lemma api_calls_tool_events [simp]: "api_calls (map2 tool_call_event bs outs) = []"
proof (induction bs arbitrary: outs)
  case Nil
  show ?case by simp
next
  case (Cons b bs)
  then show ?case by (cases outs) (simp_all add: tool_call_event_def)
qed

lemma tool_executions_tool_events:
  "length outs = length bs \<Longrightarrow>
   tool_executions (map2 tool_call_event bs outs) = map2 (\<lambda>b out. (block_name b, block_input b, out)) bs outs"
  by (induction bs outs rule: list_induct2') (simp_all add: tool_call_event_def)

lemma tool_rounds_tools:
  "tool_rounds (logged_generator self) tls (logged_tool_manager tm) sc n msgs (w, evs) = (res, w', evs')
   \<Longrightarrow> \<exists>new. api_calls evs' = api_calls evs @ new \<and>
         prefix (map (\<lambda>c. (tools (fst c), tool_choice (fst c))) new)
                (replicate n (offered_tools tls) @ [(None, None)])"
proof (induction n arbitrary: msgs w evs)
  case 0
  then show ?case unfolding tool_rounds_0_logged by (auto simp: api_calls_append)
next
  case (Suc n)
  from Suc.prems show ?case
  proof (cases rule: tool_rounds_Suc_cases)
    case (raised e w1)
    then show ?thesis by (simp add: api_calls_append)
  next
    case (direct resp w1)
    then show ?thesis by (simp add: api_calls_append)
  next
    case (tool_use resp w1 outs w2)
    from Suc.IH [OF tool_use(4)] obtain new where
      "api_calls evs' = api_calls evs @ (round_params self tls msgs sc, Inr resp) # new"
      "prefix (map (\<lambda>c. (tools (fst c), tool_choice (fst c))) new)
              (replicate n (offered_tools tls) @ [(None, None)])"
      by (auto simp: api_calls_append)
    then show ?thesis
      by (intro exI [of _ "(round_params self tls msgs sc, Inr resp) # new"]) simp
  qed
qed

lemma tool_rounds_conversation:
  "tool_rounds (logged_generator self) tls (logged_tool_manager tm) sc n msgs (w, evs) = (res, w', evs')
   \<Longrightarrow> \<exists>new. api_calls evs' = api_calls evs @ new \<and> new \<noteq> [] \<and> messages (fst (hd new)) = msgs \<and>
         (\<forall>c\<in>set new. system (fst c) = sc \<and>
            (\<exists>rest. messages (fst c) = msgs @ rest \<and> (\<forall>m\<in>set rest. \<not> is_text_turn m)))"
proof (induction n arbitrary: msgs w evs)
  case 0
  then show ?case unfolding tool_rounds_0_logged by (auto simp: api_calls_append)
next
  case (Suc n)
  from Suc.prems show ?case
  proof (cases rule: tool_rounds_Suc_cases)
    case (raised e w1)
    then show ?thesis by (simp add: api_calls_append)
  next
    case (direct resp w1)
    then show ?thesis by (simp add: api_calls_append)
  next
    case (tool_use resp w1 outs w2)
    let ?turns = "[\<lparr>role = ''assistant'', message_content = Blocks (content resp)\<rparr>,
                  \<lparr>role = ''user'', message_content =
                     ToolResults (map2 result_entry (tool_uses (content resp)) outs)\<rparr>]"
    from Suc.IH [OF tool_use(4)] obtain new where
      new: "api_calls evs' = api_calls evs @ (round_params self tls msgs sc, Inr resp) # new"
      and inv: "\<forall>c\<in>set new. system (fst c) = sc \<and>
            (\<exists>rest. messages (fst c) = (msgs @ ?turns) @ rest \<and> (\<forall>m\<in>set rest. \<not> is_text_turn m))"
      by (auto simp: api_calls_append)
    have "\<forall>c\<in>set new. system (fst c) = sc \<and>
            (\<exists>rest. messages (fst c) = msgs @ rest \<and> (\<forall>m\<in>set rest. \<not> is_text_turn m))"
    proof
      fix c assume "c \<in> set new"
      with inv obtain rest where "system (fst c) = sc" "messages (fst c) = (msgs @ ?turns) @ rest"
        "\<forall>m\<in>set rest. \<not> is_text_turn m" by blast
      then show "system (fst c) = sc \<and>
            (\<exists>rest. messages (fst c) = msgs @ rest \<and> (\<forall>m\<in>set rest. \<not> is_text_turn m))"
        by (intro conjI exI [of _ "?turns @ rest"]) (simp_all add: is_text_turn_def)
    qed
    with new show ?thesis
      by (intro exI [of _ "(round_params self tls msgs sc, Inr resp) # new"]) simp
  qed
qed

lemma execute_tool_calls_errors_as_text:
  "execute_tool_calls (tool_errors_as_text tm) bs acc w = execute_tool_calls tm bs acc w"
proof (induction bs arbitrary: acc w)
  case Nil
  show ?case by simp
next
  case (Cons b bs)
  have "(case out of Inr r \<Rightarrow> r | Inl e \<Rightarrow> ''Tool error: '' @ exc_str e) = render_outcome out" for out
    by (cases out) simp_all
  with Cons show ?case
    by (simp add: tool_errors_as_text_def split: prod.splits)
qed

lemma tool_rounds_errors_as_text:
  "tool_rounds self tls (tool_errors_as_text tm) sc n msgs w = tool_rounds self tls tm sc n msgs w"
  by (induction n arbitrary: msgs w)
     (simp_all add: execute_tool_calls_errors_as_text split: prod.splits sum.splits)

lemma tool_rounds_transparent:
  "fst (tool_rounds (logged_generator self) tls (logged_tool_manager tm) sc n msgs (w, evs))
     = fst (tool_rounds self tls tm sc n msgs w) \<and>
   fst (snd (tool_rounds (logged_generator self) tls (logged_tool_manager tm) sc n msgs (w, evs)))
     = snd (tool_rounds self tls tm sc n msgs w)"
proof (induction n arbitrary: msgs w evs)
  case 0
  show ?case by (simp add: logged_client_apply split: prod.splits sum.splits)
next
  case (Suc n)
  let ?p = "round_params self tls msgs sc"
  obtain out w1 where c: "client self ?p w = (out, w1)" by (cases "client self ?p w")
  show ?case
  proof (cases out)
    case (Inl e)
    with c show ?thesis by (simp add: logged_client_apply)
  next
    case (Inr resp)
    let ?evs1 = "evs @ [ApiCall ?p (Inr resp)]"
    obtain trs w2 evs2 where l:
      "execute_tool_calls (logged_tool_manager tm) (content resp) [] (w1, ?evs1) = (trs, w2, evs2)"
      by (metis prod_cases3)
    with execute_tool_calls_transparent [of tm "content resp" "[]" w1 ?evs1]
    have u: "execute_tool_calls tm (content resp) [] w1 = (trs, w2)"
      by (simp add: prod_eq_iff)
    from c Inr l u Suc.IH show ?thesis
      by (simp add: logged_client_apply)
  qed
qed

lemma observe_Some:
  "observe self q h tls (Some tm) w =
     tool_rounds (logged_generator self) tls (logged_tool_manager tm) (build_system_content h)
       MAX_TOOL_ROUNDS [user_turn q] (w, [])"
  by (simp add: observe_def generate_response_def user_turn_def)

lemma observe_None:
  "observe self q h tls None w =
     (outcome_text (fst (client self (first_params self q h tls None) w)),
      snd (client self (first_params self q h tls None) w),
      [ApiCall (first_params self q h tls None) (fst (client self (first_params self q h tls None) w))])"
  by (simp add: observe_def generate_response_def user_turn_def first_params_def logged_client_apply
           Let_def split: prod.splits sum.splits)

lemma observe_transparent:
  "fst (observe self q h tls otm w) = fst (generate_response self q h tls otm w) \<and>
   fst (snd (observe self q h tls otm w)) = snd (generate_response self q h tls otm w)"
proof (cases otm)
  case None
  then show ?thesis
    by (simp add: observe_None) 
       (simp add: generate_response_def first_params_def user_turn_def split: prod.splits sum.splits)
next
  case (Some tm)
  then show ?thesis
    using tool_rounds_transparent [of self tls tm "build_system_content h" MAX_TOOL_ROUNDS "[user_turn q]" w "[]"]
    by (simp add: observe_Some) (simp add: generate_response_def user_turn_def)
qed

lemmas run_simps = answer_def events_def observe_def generate_response_def Let_def MAX_TOOL_ROUNDS_def
  numeral_2_eq_2 generator_def offline_generator_def logged_generator_def logged_client_def logged_tool_manager_def
  base_params_def text_response_def tool_use_response_def returning_tool_manager_def
  failing_tool_manager_def one_tool_manager_def search_tools_def unreachable_create_def

lemma run_from_observe:
  assumes "observe self q h tls (Some tm) w = (res, w', evs)"
  shows "tool_rounds (logged_generator self) tls (logged_tool_manager tm) (build_system_content h)
           MAX_TOOL_ROUNDS [user_turn q] (w, []) = (res, w', evs)"
  using assms by (simp add: observe_Some)

lemma prefix_nth: "prefix xs ys \<Longrightarrow> i < length xs \<Longrightarrow> xs ! i = ys ! i"
  by (auto simp: prefix_def nth_append)

lemma observe_conversation:
  "api_calls (events self q h tls otm w) \<noteq> [] \<and>
   messages (fst (hd (api_calls (events self q h tls otm w)))) = [user_turn q] \<and>
   (\<forall>c\<in>set (api_calls (events self q h tls otm w)).
      system (fst c) = build_system_content h \<and>
      (\<exists>rest. messages (fst c) = [user_turn q] @ rest \<and> (\<forall>m\<in>set rest. \<not> is_text_turn m)))"
proof (cases otm)
  case None
  then show ?thesis
    by (simp add: events_def observe_None first_params_def)
next
  case (Some tm)
  obtain res w' evs where run: "observe self q h tls (Some tm) w = (res, w', evs)"
    by (metis prod_cases3)
  then have ev: "events self q h tls otm w = evs"
    using Some by (simp add: events_def)
  from tool_rounds_conversation [OF run_from_observe [OF run]]
  show ?thesis unfolding ev by simp
qed

lemma tool_rounds_first_event:
  "tool_rounds (logged_generator self) tls (logged_tool_manager tm) sc n msgs (w, evs) = (res, w', evs')
   \<Longrightarrow> \<exists>p out rest. evs' = evs @ ApiCall p out # rest \<and> messages p = msgs"
proof (induction n arbitrary: msgs w evs)
  case 0
  then show ?case unfolding tool_rounds_0_logged by auto
next
  case (Suc n)
  from Suc.prems show ?case
  proof (cases rule: tool_rounds_Suc_cases)
    case (raised e w1)
    then show ?thesis by (intro exI [of _ "round_params self tls msgs sc"]) simp
  next
    case (direct resp w1)
    then show ?thesis by (intro exI [of _ "round_params self tls msgs sc"]) simp
  next
    case (tool_use resp w1 outs w2)
    from Suc.IH [OF tool_use(4)] obtain p out rest where
      "evs' = (evs @ ApiCall (round_params self tls msgs sc) (Inr resp)
                 # map2 tool_call_event (tool_uses (content resp)) outs) @ ApiCall p out # rest"
      by blast
    then show ?thesis
      by (intro exI [of _ "round_params self tls msgs sc"]) simp
  qed
qed

lemma search_total:
  "search self query_text course_name lesson limit =
     (case index_query (course_content self) query_text
             (case limit of Some n \<Rightarrow> n | None \<Rightarrow> max_results self)
             (build_filter course_name lesson) of
        Inl e \<Rightarrow> empty_results (''Search error: '' @ exc_str e)
      | Inr (docs, metas, dists) \<Rightarrow>
          \<lparr>documents = docs, metadata = metas, distances = dists, error = None\<rparr>)"
  by (simp add: search_def)



lemma split_after_tool_events:
  assumes "api_calls ts = []"
    and "pre @ ApiCall p out # post = ts @ new"
  shows "\<exists>pre'. pre = ts @ pre' \<and> pre' @ ApiCall p out # post = new"
  using assms
proof (induction ts arbitrary: pre)
  case Nil
  then show ?case by simp
next
  case (Cons t ts)
  from Cons.prems(1) obtain nm inp r where t: "t = ToolCall nm inp r" and rest: "api_calls ts = []"
    by (cases t) simp_all
  show ?case
  proof (cases pre)
    case Nil
    with Cons.prems(2) t show ?thesis by simp
  next
    case (Cons x pre1)
    with Cons.prems(2) have x: "x = t" and eq: "pre1 @ ApiCall p out # post = ts @ new"
      by simp_all
    from Cons.IH [OF rest eq] obtain pre' where "pre1 = ts @ pre'" "pre' @ ApiCall p out # post = new"
      by blast
    with x \<open>pre = x # pre1\<close> show ?thesis by simp
  qed
qed

lemma singleton_split:
  "[a] = pre @ b # post \<Longrightarrow> pre = [] \<and> a = b \<and> post = []"
  by (cases pre) auto

lemma tool_rounds_first_call:
  assumes "tool_rounds (logged_generator self) tls (logged_tool_manager tm) sc (Suc n) msgs (w, evs)
             = (res, w', evs')"
  shows "\<exists>rest. evs' = evs @ ApiCall (round_params self tls msgs sc)
                              (fst (client self (round_params self tls msgs sc) w)) # rest"
  using assms
proof (cases rule: tool_rounds_Suc_cases)
  case (raised e w1)
  then show ?thesis by simp
next
  case (direct resp w1)
  then show ?thesis by simp
next
  case (tool_use resp w1 outs w2)
  from tool_rounds_first_event [OF tool_use(4)] tool_use(1) show ?thesis
    by auto
qed

lemma tool_rounds_round_structure:
  "tool_rounds (logged_generator self) tls (logged_tool_manager tm) sc n msgs (w, evs) = (res, w', evs')
   \<Longrightarrow> \<exists>new. evs' = evs @ new \<and>
        (\<forall>pre p resp post.
           new = pre @ ApiCall p (Inr resp) # post \<and> length (api_calls pre) < n
             \<and> stop_reason resp = ''tool_use''
           \<longrightarrow> (\<exists>outs p' out' rest.
                  length outs = length (tool_uses (content resp))
                \<and> post = map2 tool_call_event (tool_uses (content resp)) outs @ ApiCall p' out' # rest
                \<and> messages p' =
                    messages p @ [\<lparr>role = ''assistant'', message_content = Blocks (content resp)\<rparr>,
                                  \<lparr>role = ''user'', message_content =
                                     ToolResults (map2 result_entry (tool_uses (content resp)) outs)\<rparr>]))"
proof (induction n arbitrary: msgs w evs)
  case 0
  then show ?case unfolding tool_rounds_0_logged by auto
next
  case (Suc n)
  let ?p0 = "round_params self tls msgs sc"
  from Suc.prems show ?case
  proof (cases rule: tool_rounds_Suc_cases)
    case (raised e w1)
    then show ?thesis
      by (intro exI [of _ "[ApiCall ?p0 (Inl e)]"]) (auto dest: singleton_split)
  next
    case (direct resp w1)
    then show ?thesis
      by (intro exI [of _ "[ApiCall ?p0 (Inr resp)]"]) (auto dest: singleton_split)
  next
    case (tool_use r0 w1 outs0 w2)
    let ?tools0 = "map2 tool_call_event (tool_uses (content r0)) outs0"
    let ?msgs1 = "msgs @ [\<lparr>role = ''assistant'', message_content = Blocks (content r0)\<rparr>,
                  \<lparr>role = ''user'', message_content =
                     ToolResults (map2 result_entry (tool_uses (content r0)) outs0)\<rparr>]"
    from Suc.IH [OF tool_use(4)] obtain new' where
      ev: "evs' = (evs @ ApiCall ?p0 (Inr r0) # ?tools0) @ new'" and
      ih: "\<forall>pre p resp post.
           new' = pre @ ApiCall p (Inr resp) # post \<and> length (api_calls pre) < n
             \<and> stop_reason resp = ''tool_use''
           \<longrightarrow> (\<exists>outs p' out' rest.
                  length outs = length (tool_uses (content resp))
                \<and> post = map2 tool_call_event (tool_uses (content resp)) outs @ ApiCall p' out' # rest
                \<and> messages p' =
                    messages p @ [\<lparr>role = ''assistant'', message_content = Blocks (content resp)\<rparr>,
                                  \<lparr>role = ''user'', message_content =
                                     ToolResults (map2 result_entry (tool_uses (content resp)) outs)\<rparr>])"
      by blast
    from tool_rounds_first_event [OF tool_use(4)] ev obtain p1 out1 rest1 where
      first: "new' = ApiCall p1 out1 # rest1" and m1: "messages p1 = ?msgs1"
      by auto
    let ?new = "ApiCall ?p0 (Inr r0) # ?tools0 @ new'"
    have "\<exists>outs p' out' rest.
                  length outs = length (tool_uses (content resp))
                \<and> post = map2 tool_call_event (tool_uses (content resp)) outs @ ApiCall p' out' # rest
                \<and> messages p' =
                    messages p @ [\<lparr>role = ''assistant'', message_content = Blocks (content resp)\<rparr>,
                                  \<lparr>role = ''user'', message_content =
                                     ToolResults (map2 result_entry (tool_uses (content resp)) outs)\<rparr>]"
      if split: "?new = pre @ ApiCall p (Inr resp) # post"
        and budget: "length (api_calls pre) < Suc n"
        and stop: "stop_reason resp = ''tool_use''"
      for pre p resp post
    proof (cases pre)
      case Nil
      with split first have "p = ?p0" "resp = r0" "post = ?tools0 @ ApiCall p1 out1 # rest1"
        by auto
      with tool_use(3) m1 show ?thesis
        by (intro exI [of _ outs0] exI [of _ p1] exI [of _ out1] exI [of _ rest1]) simp
    next
      case (Cons x pre1)
      with split have x: "x = ApiCall ?p0 (Inr r0)"
        and eq: "pre1 @ ApiCall p (Inr resp) # post = ?tools0 @ new'"
        by simp_all
      from split_after_tool_events [OF _ eq] obtain pre2 where
        p1: "pre1 = ?tools0 @ pre2" and p2: "pre2 @ ApiCall p (Inr resp) # post = new'"
        by auto
      from budget Cons x p1 have "length (api_calls pre2) < n"
        by (simp add: api_calls_append)
      with ih p2 stop show ?thesis by blast
    qed
    then have "\<forall>pre p resp post.
           ?new = pre @ ApiCall p (Inr resp) # post \<and> length (api_calls pre) < Suc n
             \<and> stop_reason resp = ''tool_use''
           \<longrightarrow> (\<exists>outs p' out' rest.
                  length outs = length (tool_uses (content resp))
                \<and> post = map2 tool_call_event (tool_uses (content resp)) outs @ ApiCall p' out' # rest
                \<and> messages p' =
                    messages p @ [\<lparr>role = ''assistant'', message_content = Blocks (content resp)\<rparr>,
                                  \<lparr>role = ''user'', message_content =
                                     ToolResults (map2 result_entry (tool_uses (content resp)) outs)\<rparr>])"
      by blast
    moreover have "evs' = evs @ ?new" using ev by simp
    ultimately show ?thesis by blast
  qed
qed

lemma events_first_call:
  "\<exists>rest. events self q h tls (Some tm) w
      = ApiCall (first_params self q h tls (Some tm))
          (fst (client self (first_params self q h tls (Some tm)) w)) # rest"
proof -
  obtain res w' evs where run: "observe self q h tls (Some tm) w = (res, w', evs)"
    by (metis prod_cases3)
  then have ev: "events self q h tls (Some tm) w = evs"
    by (simp add: events_def)
  from run_from_observe [OF run] have
    "tool_rounds (logged_generator self) tls (logged_tool_manager tm) (build_system_content h)
       (Suc (Suc 0)) [user_turn q] (w, []) = (res, w', evs)"
    by (simp add: MAX_TOOL_ROUNDS_def numeral_2_eq_2)
  from tool_rounds_first_call [OF this] show ?thesis
    unfolding ev by (simp add: first_params_def)
qed

lemma events_round_structure:
  assumes "events self q h tls (Some tm) w = pre @ ApiCall p (Inr resp) # post"
    and "length (api_calls pre) < MAX_TOOL_ROUNDS"
    and "stop_reason resp = ''tool_use''"
  shows "\<exists>outs p' out' rest.
           length outs = length (tool_uses (content resp))
         \<and> post = map2 tool_call_event (tool_uses (content resp)) outs @ ApiCall p' out' # rest
         \<and> messages p' =
             messages p @ [\<lparr>role = ''assistant'', message_content = Blocks (content resp)\<rparr>,
                           \<lparr>role = ''user'', message_content =
                              ToolResults (map2 result_entry (tool_uses (content resp)) outs)\<rparr>]"
proof -
  obtain res w' evs where run: "observe self q h tls (Some tm) w = (res, w', evs)"
    by (metis prod_cases3)
  then have ev: "events self q h tls (Some tm) w = evs"
    by (simp add: events_def)
  from tool_rounds_round_structure [OF run_from_observe [OF run]] assms show ?thesis
    unfolding ev by simp
qed

lemma tool_call_event_eq: "tool_call_event = (\<lambda>b out. ToolCall (block_name b) (block_input b) out)"
  by (simp add: fun_eq_iff tool_call_event_def)

lemma result_entry_eq:
  "result_entry = (\<lambda>b out. \<lparr>tool_use_id = block_id b,
     result_content = (case out of Inr r \<Rightarrow> r | Inl e \<Rightarrow> ''Tool error: '' @ exc_str e)\<rparr>)"
proof -
  have "render_outcome out = (case out of Inr r \<Rightarrow> r | Inl e \<Rightarrow> ''Tool error: '' @ exc_str e)" for out
    by (cases out) simp_all
  then show ?thesis by (simp add: fun_eq_iff result_entry_def)
qed

section \<open>The claims\<close>

text \<open>
  Claim C1, as amended. For every query that \<open>generate_response\<close> processes with a tool
  manager attached, at least one and at most \<open>MAX_TOOL_ROUNDS + 1 = 3\<close> inference calls are
  issued, whatever the provider answers and however many rounds ask for tools. The query
  always ends, and what it returns is the outcome of the last call issued: the exception
  that call raised, or what reading \<^verbatim>\<open>content[0].text\<close> of its response gives, which is the
  final answer string when that response begins with a text block.
\<close>

theorem inference_calls_bounded:
  "1 \<le> length (api_calls (events self q h tls (Some tm) w))
   \<and> length (api_calls (events self q h tls (Some tm) w)) \<le> MAX_TOOL_ROUNDS + 1
   \<and> MAX_TOOL_ROUNDS + 1 = 3
   \<and> answer self q h tls (Some tm) w = outcome_text (snd (last (api_calls (events self q h tls (Some tm) w))))
   \<and> (\<forall>r t bs. snd (last (api_calls (events self q h tls (Some tm) w))) = Inr r \<and> content r = TextBlock t # bs
         \<longrightarrow> answer self q h tls (Some tm) w = Inr t)"
proof -
  obtain res w' evs where run: "observe self q h tls (Some tm) w = (res, w', evs)"
    by (metis prod_cases3)
  then have ev: "events self q h tls (Some tm) w = evs" and an: "answer self q h tls (Some tm) w = res"
    by (simp_all add: events_def answer_def)
  from run have "tool_rounds (logged_generator self) tls (logged_tool_manager tm) (build_system_content h)
       MAX_TOOL_ROUNDS [user_turn q] (w, []) = (res, w', evs)"
    by (simp add: observe_Some)
  from tool_rounds_calls [OF this] have
    a: "1 \<le> length (api_calls evs)" and b: "length (api_calls evs) \<le> MAX_TOOL_ROUNDS + 1"
    and c: "res = outcome_text (snd (last (api_calls evs)))"
    by (simp_all add: Suc_le_eq)
  have d: "MAX_TOOL_ROUNDS + 1 = 3" by (simp add: MAX_TOOL_ROUNDS_def)
  from c have "\<forall>r t bs. snd (last (api_calls evs)) = Inr r \<and> content r = TextBlock t # bs \<longrightarrow> res = Inr t"
    by simp
  with a b c d show ?thesis unfolding ev an by blast
qed

theorem inference_calls_bounded_witness:
  "length (api_calls (events generator ''test'' None (Some search_tools) (Some returning_tool_manager)
          [tool_use_response ''search_course_content'' ''t1'' [(''query'', ''first'')],
           tool_use_response ''search_course_content'' ''t2'' [(''query'', ''second'')],
           text_response ''Final''])) = 3
   \<and> answer generator ''test'' None (Some search_tools) (Some returning_tool_manager)
          [tool_use_response ''search_course_content'' ''t1'' [(''query'', ''first'')],
           tool_use_response ''search_course_content'' ''t2'' [(''query'', ''second'')],
           text_response ''Final''] = Inr ''Final''"
  using inference_calls_bounded [of generator "''test''" None "Some search_tools" returning_tool_manager
          "[tool_use_response ''search_course_content'' ''t1'' [(''query'', ''first'')],
           tool_use_response ''search_course_content'' ''t2'' [(''query'', ''second'')],
           text_response ''Final'']"]
  by (simp add: run_simps)

text \<open>
  Claim C1 as stated says that a final answer string is always returned. A response with
  an empty content list, and a provider that raises, each end the query with an exception.
\<close>

theorem final_answer_counterexample:
  "answer generator ''test'' None (Some search_tools) (Some returning_tool_manager)
     [\<lparr>stop_reason = ''end_turn'', content = []\<rparr>]
     = Inl (PyException ''IndexError'' ''list index out of range'')
   \<and> answer offline_generator ''test'' None (Some search_tools) (Some returning_tool_manager) ()
     = Inl (PyException ''APIConnectionError'' ''Connection error.'')"
  by (simp add: run_simps)

text \<open>
  Claim C2, as amended. The tool arguments of the inference calls of one query, in order,
  are a prefix of: the tools offered, the tools offered, none. So a tool schema is passed
  only in the first \<open>MAX_TOOL_ROUNDS\<close> (two) calls; a call issued after them, the synthesis
  call, has neither \<^verbatim>\<open>tools\<close> nor \<^verbatim>\<open>tool_choice\<close>, and the query returns the outcome of
  that call: the text of its response as the final answer when the response begins with a
  text block, and otherwise the exception (of the call, or of reading \<^verbatim>\<open>content[0].text\<close>).
\<close>

theorem tools_only_in_rounds:
  "prefix (map (\<lambda>c. (tools (fst c), tool_choice (fst c))) (api_calls (events self q h tls (Some tm) w)))
          (replicate MAX_TOOL_ROUNDS (offered_tools tls) @ [(None, None)])
   \<and> (\<forall>i < length (api_calls (events self q h tls (Some tm) w)). MAX_TOOL_ROUNDS \<le> i \<longrightarrow>
          tools (fst (api_calls (events self q h tls (Some tm) w) ! i)) = None
        \<and> tool_choice (fst (api_calls (events self q h tls (Some tm) w) ! i)) = None
        \<and> answer self q h tls (Some tm) w
            = outcome_text (snd (api_calls (events self q h tls (Some tm) w) ! i)))
   \<and> (\<forall>i r t bs. i < length (api_calls (events self q h tls (Some tm) w)) \<and> MAX_TOOL_ROUNDS \<le> i
          \<and> snd (api_calls (events self q h tls (Some tm) w) ! i) = Inr r
          \<and> content r = TextBlock t # bs
        \<longrightarrow> answer self q h tls (Some tm) w = Inr t)"
proof -
  obtain res w' evs where run: "observe self q h tls (Some tm) w = (res, w', evs)"
    by (metis prod_cases3)
  then have ev: "events self q h tls (Some tm) w = evs" and an: "answer self q h tls (Some tm) w = res"
    by (simp_all add: events_def answer_def)
  let ?calls = "api_calls evs"
  let ?shape = "replicate MAX_TOOL_ROUNDS (offered_tools tls) @ [(None, None)]"
  from tool_rounds_tools [OF run_from_observe [OF run]]
  have pre: "prefix (map (\<lambda>c. (tools (fst c), tool_choice (fst c))) ?calls) ?shape"
    by simp
  from tool_rounds_calls [OF run_from_observe [OF run]]
  have len: "length ?calls \<le> MAX_TOOL_ROUNDS + 1" and ne: "?calls \<noteq> []"
    and last: "res = outcome_text (snd (last ?calls))"
    by simp_all
  have "tools (fst (?calls ! i)) = None \<and> tool_choice (fst (?calls ! i)) = None
        \<and> res = outcome_text (snd (?calls ! i))"
    if i: "i < length ?calls" and ge: "MAX_TOOL_ROUNDS \<le> i" for i
  proof -
    from i ge len have eq: "i = MAX_TOOL_ROUNDS" and l: "length ?calls = MAX_TOOL_ROUNDS + 1"
      by simp_all
    from prefix_nth [OF pre, of i] i
    have "(tools (fst (?calls ! i)), tool_choice (fst (?calls ! i))) = ?shape ! i"
      by simp
    also have "?shape ! i = (None, None)"
      using eq by (simp add: nth_append)
    finally have t: "tools (fst (?calls ! i)) = None \<and> tool_choice (fst (?calls ! i)) = None"
      by simp
    from ne l eq have "last ?calls = ?calls ! i"
      by (simp add: last_conv_nth)
    with last t show ?thesis by simp
  qed
  then have synth: "\<forall>i < length ?calls. MAX_TOOL_ROUNDS \<le> i \<longrightarrow>
          tools (fst (?calls ! i)) = None \<and> tool_choice (fst (?calls ! i)) = None
        \<and> res = outcome_text (snd (?calls ! i))"
    by blast
  have "res = Inr t"
    if "i < length ?calls \<and> MAX_TOOL_ROUNDS \<le> i \<and> snd (?calls ! i) = Inr r \<and> content r = TextBlock t # bs"
    for i r t bs
  proof -
    from that synth have "res = outcome_text (Inr r)" by auto
    with that show ?thesis by simp
  qed
  then have "\<forall>i r t bs. i < length ?calls \<and> MAX_TOOL_ROUNDS \<le> i
          \<and> snd (?calls ! i) = Inr r \<and> content r = TextBlock t # bs \<longrightarrow> res = Inr t"
    by blast
  with pre synth show ?thesis unfolding ev an by (intro conjI)
qed


theorem tools_only_in_rounds_witness:
  "map (\<lambda>c. (tools (fst c), tool_choice (fst c)))
      (api_calls (events generator ''test'' None (Some search_tools) (Some returning_tool_manager)
          [tool_use_response ''search_course_content'' ''tu_001'' [(''query'', ''test'')],
           tool_use_response ''search_course_content'' ''tu_001'' [(''query'', ''test'')],
           text_response ''Done'']))
     = [(Some search_tools, Some [(''type'', ''auto'')]),
        (Some search_tools, Some [(''type'', ''auto'')]),
        (None, None)]
   \<and> answer generator ''test'' None (Some search_tools) (Some returning_tool_manager)
          [tool_use_response ''search_course_content'' ''tu_001'' [(''query'', ''test'')],
           tool_use_response ''search_course_content'' ''tu_001'' [(''query'', ''test'')],
           text_response ''Done''] = Inr ''Done''"
  using tools_only_in_rounds [of generator "''test''" None "Some search_tools" returning_tool_manager
          "[tool_use_response ''search_course_content'' ''tu_001'' [(''query'', ''test'')],
           tool_use_response ''search_course_content'' ''tu_001'' [(''query'', ''test'')],
           text_response ''Done'']"]
  by (simp add: run_simps)

text \<open>
  Claim C2 as stated says that the text of the synthesis call is returned as the final
  answer. When the response of the synthesis call has an empty content list, the query
  makes its three calls and ends with an IndexError.
\<close>

theorem synthesis_text_counterexample:
  "length (api_calls (events generator ''test'' None (Some search_tools) (Some returning_tool_manager)
      [tool_use_response ''search_course_content'' ''tu_001'' [(''query'', ''test'')],
       tool_use_response ''search_course_content'' ''tu_002'' [(''query'', ''test'')],
       \<lparr>stop_reason = ''end_turn'', content = []\<rparr>])) = 3
   \<and> answer generator ''test'' None (Some search_tools) (Some returning_tool_manager)
      [tool_use_response ''search_course_content'' ''tu_001'' [(''query'', ''test'')],
       tool_use_response ''search_course_content'' ''tu_002'' [(''query'', ''test'')],
       \<lparr>stop_reason = ''end_turn'', content = []\<rparr>]
     = Inl (PyException ''IndexError'' ''list index out of range'')"
  by (simp add: run_simps)

text \<open>
  Claim C3, as amended. A query with a tool manager starts with an inference call.
  Whenever the response to one of its first \<open>MAX_TOOL_ROUNDS\<close> calls stops for tool use, the
  events that follow are one tool execution per tool-call request of the response, in the
  order of the blocks and whatever the executions before raised, and then the next
  inference call; the conversation of that call ends with the turn of tool results, where
  the entry of a request holds the value its tool returned or, when its tool raised, the
  text \<^verbatim>\<open>Tool error: \<close> followed by the message of the exception. The exception of a
  tool goes no further: the query returns the outcome of its last inference call (a final
  answer when that response begins with a text block), as it does with a tool manager that
  never raises and returns that text instead.
\<close>

theorem tool_error_contained_in_query:
  "(\<exists>rest. events self q h tls (Some tm) w
      = ApiCall (first_params self q h tls (Some tm))
          (fst (client self (first_params self q h tls (Some tm)) w)) # rest)
   \<and> (\<forall>pre p resp post.
        events self q h tls (Some tm) w = pre @ ApiCall p (Inr resp) # post
        \<and> length (api_calls pre) < MAX_TOOL_ROUNDS
        \<and> stop_reason resp = ''tool_use''
      \<longrightarrow> (\<exists>outs p' out' rest before.
             length outs = length (tool_uses (content resp))
           \<and> post = map2 (\<lambda>b out. ToolCall (block_name b) (block_input b) out)
                       (tool_uses (content resp)) outs
                    @ ApiCall p' out' # rest
           \<and> messages p' =
               before @ [\<lparr>role = ''user'', message_content = ToolResults
                  (map2 (\<lambda>b out. \<lparr>tool_use_id = block_id b,
                           result_content = (case out of
                                               Inr r \<Rightarrow> r
                                             | Inl e \<Rightarrow> ''Tool error: '' @ exc_str e)\<rparr>)
                     (tool_uses (content resp)) outs)\<rparr>]))
   \<and> answer self q h tls (Some tm) w
       = outcome_text (snd (last (api_calls (events self q h tls (Some tm) w))))
   \<and> (\<forall>r t bs. snd (last (api_calls (events self q h tls (Some tm) w))) = Inr r
                 \<and> content r = TextBlock t # bs
         \<longrightarrow> answer self q h tls (Some tm) w = Inr t)
   \<and> generate_response self q h tls (Some tm) w
       = generate_response self q h tls (Some (tool_errors_as_text tm)) w"
proof -
  have first: "\<exists>rest. events self q h tls (Some tm) w
      = ApiCall (first_params self q h tls (Some tm))
          (fst (client self (first_params self q h tls (Some tm)) w)) # rest"
    by (rule events_first_call)
  have rounds: "\<exists>outs p' out' rest before.
             length outs = length (tool_uses (content resp))
           \<and> post = map2 (\<lambda>b out. ToolCall (block_name b) (block_input b) out)
                       (tool_uses (content resp)) outs
                    @ ApiCall p' out' # rest
           \<and> messages p' =
               before @ [\<lparr>role = ''user'', message_content = ToolResults
                  (map2 (\<lambda>b out. \<lparr>tool_use_id = block_id b,
                           result_content = (case out of
                                               Inr r \<Rightarrow> r
                                             | Inl e \<Rightarrow> ''Tool error: '' @ exc_str e)\<rparr>)
                     (tool_uses (content resp)) outs)\<rparr>]"
    if "events self q h tls (Some tm) w = pre @ ApiCall p (Inr resp) # post
        \<and> length (api_calls pre) < MAX_TOOL_ROUNDS \<and> stop_reason resp = ''tool_use''"
    for pre p resp post
  proof -
    from that events_round_structure [of self q h tls tm w pre p resp post]
    obtain outs p' out' rest where
      len: "length outs = length (tool_uses (content resp))"
      and post: "post = map2 tool_call_event (tool_uses (content resp)) outs @ ApiCall p' out' # rest"
      and msgs: "messages p' =
             messages p @ [\<lparr>role = ''assistant'', message_content = Blocks (content resp)\<rparr>,
                           \<lparr>role = ''user'', message_content =
                              ToolResults (map2 result_entry (tool_uses (content resp)) outs)\<rparr>]"
      by blast
    from msgs have "messages p' =
             (messages p @ [\<lparr>role = ''assistant'', message_content = Blocks (content resp)\<rparr>])
               @ [\<lparr>role = ''user'', message_content =
                              ToolResults (map2 result_entry (tool_uses (content resp)) outs)\<rparr>]"
      by simp
    with len post show ?thesis
      unfolding tool_call_event_eq result_entry_eq by blast
  qed
  obtain res w' evs where run: "observe self q h tls (Some tm) w = (res, w', evs)"
    by (metis prod_cases3)
  then have ev: "events self q h tls (Some tm) w = evs" and an: "answer self q h tls (Some tm) w = res"
    by (simp_all add: events_def answer_def)
  from tool_rounds_calls [OF run_from_observe [OF run]]
  have last: "res = outcome_text (snd (last (api_calls evs)))"
    by simp
  then have lead: "\<forall>r t bs. snd (last (api_calls evs)) = Inr r \<and> content r = TextBlock t # bs
                     \<longrightarrow> res = Inr t"
    by simp
  have same: "generate_response self q h tls (Some tm) w
       = generate_response self q h tls (Some (tool_errors_as_text tm)) w"
    by (simp add: generate_response_def tool_rounds_errors_as_text)
  from first rounds last lead same show ?thesis
    unfolding ev [symmetric] an [symmetric] by blast
qed

theorem tool_error_contained_in_query_witness:
  "tool_executions (events generator ''test'' None (Some search_tools) (Some one_tool_manager)
      [two_tool_response, text_response ''Recovered response''])
     = [(''search_course_content'', [(''query'', ''python'')], Inr ''search results here''),
        (''get_course_outline'', [(''course_name'', ''MCP'')],
           Inl (PyException ''ValueError'' ''Tool get_course_outline not found''))]
   \<and> map (\<lambda>c. last (messages (fst c)))
       (api_calls (events generator ''test'' None (Some search_tools) (Some one_tool_manager)
          [two_tool_response, text_response ''Recovered response'']))
     = [user_turn ''test'',
        \<lparr>role = ''user'', message_content = ToolResults
            [\<lparr>tool_use_id = ''t1'', result_content = ''search results here''\<rparr>,
             \<lparr>tool_use_id = ''t2'',
              result_content = ''Tool error: Tool get_course_outline not found''\<rparr>]\<rparr>]
   \<and> answer generator ''test'' None (Some search_tools) (Some one_tool_manager)
        [two_tool_response, text_response ''Recovered response''] = Inr ''Recovered response''"
  using tool_error_contained_in_query [of generator "''test''" None "Some search_tools" one_tool_manager
      "[two_tool_response, text_response ''Recovered response'']"]
  by (simp add: run_simps two_tool_response_def user_turn_def tool_errors_as_text_def first_params_def)

text \<open>
  Claim C3 as stated says that the query still completes with a final answer. Here the
  tool raises, its exception is caught, and the next response has an empty content list:
  the query ends with an IndexError.
\<close>

theorem tool_error_no_answer_counterexample:
  "tool_executions (events generator ''test'' None (Some search_tools) (Some failing_tool_manager)
      [tool_use_response ''search_course_content'' ''tu_001'' [(''query'', ''test'')],
       \<lparr>stop_reason = ''end_turn'', content = []\<rparr>])
     = [(''search_course_content'', [(''query'', ''test'')],
           Inl (PyException ''Exception'' ''search failed''))]
   \<and> answer generator ''test'' None (Some search_tools) (Some failing_tool_manager)
      [tool_use_response ''search_course_content'' ''tu_001'' [(''query'', ''test'')],
       \<lparr>stop_reason = ''end_turn'', content = []\<rparr>]
     = Inl (PyException ''IndexError'' ''list index out of range'')"
  by (simp add: run_simps)

text \<open>
  Claim C4. When the result count of a search is zero (the configured maximum, or the
  override), \<open>search\<close> returns the empty result set whose error field is present and is
  \<^verbatim>\<open>Search error: \<close> followed by the message of the index, so it contains
  \<^verbatim>\<open>Search error\<close>. \<open>search\<close> has no exceptional result: every failure of the index is
  turned into such a result set.
\<close>

theorem search_zero_results:
  assumes zero: "(case limit of Some n \<Rightarrow> n | None \<Rightarrow> max_results self) = 0"
  shows "search self query_text course_name lesson limit
           = empty_results (''Search error: '' @ zero_results_message)
       \<and> error (search self query_text course_name lesson limit)
           = Some (''Search error: '' @ zero_results_message)
       \<and> sublist ''Search error'' (''Search error: '' @ zero_results_message)
       \<and> documents (search self query_text course_name lesson limit) = []"
proof -
  have s: "search self query_text course_name lesson limit
           = empty_results (''Search error: '' @ zero_results_message)"
    using zero by (simp add: search_def index_query_def)
  have "''Search error: '' @ zero_results_message = [] @ ''Search error'' @ ('': '' @ zero_results_message)"
    by simp
  then have "sublist ''Search error'' (''Search error: '' @ zero_results_message)"
    unfolding sublist_def by blast
  with s show ?thesis by (simp add: empty_results_def)
qed

theorem search_zero_results_witness:
  "(case None of Some n \<Rightarrow> n | None \<Rightarrow> max_results zero_store) = 0
   \<and> error (search zero_store ''test query'' None None None)
       = Some ''Search error: Number of requested results 0 is less than the smallest sample size 1''"
proof -
  have z: "(case None of Some n \<Rightarrow> n | None \<Rightarrow> max_results zero_store) = 0"
    by (simp add: zero_store_def)
  from search_zero_results [OF z, of "''test query''" None None] z show ?thesis
    by (simp add: zero_results_message_def empty_results_def)
qed




text \<open>
  Claim C6, as amended. If the first inference call returns a response whose stop reason
  is not \<^verbatim>\<open>tool_use\<close>, that call is the only event of the query (one inference call, no
  tool execution) and the query returns what reading \<^verbatim>\<open>content[0].text\<close> of that
  response gives: the text itself, verbatim, as the final answer when the first block is a
  text block, and otherwise the exception. It holds with and without a tool manager.
\<close>

theorem direct_answer:
  assumes first: "client self (first_params self q h tls otm) w = (Inr resp, w1)"
    and stop: "stop_reason resp \<noteq> ''tool_use''"
  shows "answer self q h tls otm w = content0_text resp
       \<and> (\<forall>t bs. content resp = TextBlock t # bs \<longrightarrow> answer self q h tls otm w = Inr t)
       \<and> events self q h tls otm w = [ApiCall (first_params self q h tls otm) (Inr resp)]
       \<and> length (api_calls (events self q h tls otm w)) = 1
       \<and> tool_executions (events self q h tls otm w) = []"
proof -
  have run: "observe self q h tls otm w
               = (content0_text resp, w1, [ApiCall (first_params self q h tls otm) (Inr resp)])"
  proof (cases otm)
    case None
    with first show ?thesis by (simp add: observe_None)
  next
    case (Some tm)
    with first stop show ?thesis
      by (simp add: observe_Some MAX_TOOL_ROUNDS_def numeral_2_eq_2 first_params_def logged_client_apply)
  qed
  then have "answer self q h tls otm w = content0_text resp"
    and "events self q h tls otm w = [ApiCall (first_params self q h tls otm) (Inr resp)]"
    by (simp_all add: answer_def events_def)
  then show ?thesis by simp
qed

theorem direct_answer_witness:
  "client generator (first_params generator ''What is Python?'' None (Some search_tools) (Some returning_tool_manager))
      [text_response ''Hello world''] = (Inr (text_response ''Hello world''), [])
   \<and> stop_reason (text_response ''Hello world'') \<noteq> ''tool_use''
   \<and> answer generator ''What is Python?'' None (Some search_tools) (Some returning_tool_manager)
        [text_response ''Hello world''] = Inr ''Hello world''
   \<and> length (api_calls (events generator ''What is Python?'' None (Some search_tools)
        (Some returning_tool_manager) [text_response ''Hello world''])) = 1
   \<and> tool_executions (events generator ''What is Python?'' None (Some search_tools)
        (Some returning_tool_manager) [text_response ''Hello world'']) = []"
proof -
  have a: "client generator (first_params generator ''What is Python?'' None (Some search_tools) (Some returning_tool_manager))
      [text_response ''Hello world''] = (Inr (text_response ''Hello world''), [])"
    by (simp add: generator_def)
  have b: "stop_reason (text_response ''Hello world'') \<noteq> ''tool_use''"
    by (simp add: text_response_def)
  from direct_answer [OF a b] a b show ?thesis
    by (simp add: text_response_def)
qed

text \<open>
  Claim C6 as stated says that the text of the response is returned. A response that stops
  at \<^verbatim>\<open>max_tokens\<close> inside a tool-use block, and a response with an empty content list,
  have no text to read: the query ends with an exception.
\<close>

theorem direct_answer_counterexample:
  "stop_reason \<lparr>stop_reason = ''max_tokens'',
       content = [ToolUseBlock ''t1'' ''search_course_content'' [(''query'', ''python'')]]\<rparr> \<noteq> ''tool_use''
   \<and> answer generator ''What is Python?'' None (Some search_tools) (Some returning_tool_manager)
      [\<lparr>stop_reason = ''max_tokens'',
        content = [ToolUseBlock ''t1'' ''search_course_content'' [(''query'', ''python'')]]\<rparr>]
     = Inl (PyException ''AttributeError'' ''object has no attribute 'text' '')
   \<and> answer generator ''What is Python?'' None None None [\<lparr>stop_reason = ''end_turn'', content = []\<rparr>]
     = Inl (PyException ''IndexError'' ''list index out of range'')"
  by (simp add: run_simps)




text \<open>
  Claim C8. A query issues at least one inference call, and the conversation of the first
  call is exactly one user turn, the question. In every inference call of the query the
  conversation starts with that turn and holds no other turn whose content is a plain
  string, and the system instruction is the system prompt, followed by the section
  \<^verbatim>\<open>Previous conversation:\<close> with the history when a history (a non-empty string) is
  given: the history goes into the system string and never into the turns.
\<close>

theorem conversation_seeded:
  "api_calls (events self q h tls otm w) \<noteq> []
   \<and> messages (fst (hd (api_calls (events self q h tls otm w))))
       = [\<lparr>role = ''user'', message_content = Text q\<rparr>]
   \<and> (\<forall>c\<in>set (api_calls (events self q h tls otm w)).
        hd (messages (fst c)) = \<lparr>role = ''user'', message_content = Text q\<rparr>
      \<and> filter is_text_turn (messages (fst c)) = [\<lparr>role = ''user'', message_content = Text q\<rparr>]
      \<and> system (fst c) =
          (case h of
             Some (x # xs) \<Rightarrow> SYSTEM_PROMPT @ ''\<newline>\<newline>Previous conversation:\<newline>'' @ x # xs
           | _ \<Rightarrow> SYSTEM_PROMPT))"
proof -
  let ?calls = "api_calls (events self q h tls otm w)"
  have sc: "build_system_content h =
          (case h of
             Some (x # xs) \<Rightarrow> SYSTEM_PROMPT @ ''\<newline>\<newline>Previous conversation:\<newline>'' @ x # xs
           | _ \<Rightarrow> SYSTEM_PROMPT)"
    by (cases h rule: build_system_content.cases) simp_all
  have ut: "user_turn q = \<lparr>role = ''user'', message_content = Text q\<rparr>"
    by (simp add: user_turn_def)
  from observe_conversation [of self q h tls otm w]
  have ne: "?calls \<noteq> []" and first: "messages (fst (hd ?calls)) = [user_turn q]"
    and inv: "\<forall>c\<in>set ?calls. system (fst c) = build_system_content h \<and>
      (\<exists>rest. messages (fst c) = [user_turn q] @ rest \<and> (\<forall>m\<in>set rest. \<not> is_text_turn m))"
    by blast+
  have "hd (messages (fst c)) = user_turn q
      \<and> filter is_text_turn (messages (fst c)) = [user_turn q]
      \<and> system (fst c) = build_system_content h" if "c \<in> set ?calls" for c
  proof -
    from inv that obtain rest where s: "system (fst c) = build_system_content h"
      and m: "messages (fst c) = [user_turn q] @ rest" and r: "\<forall>m\<in>set rest. \<not> is_text_turn m"
      by blast
    from r have "filter is_text_turn rest = []" by (simp add: filter_empty_conv)
    moreover have "is_text_turn (user_turn q)" by (simp add: is_text_turn_def user_turn_def)
    ultimately show ?thesis using s m by simp
  qed
  then have "\<forall>c\<in>set ?calls. hd (messages (fst c)) = user_turn q
      \<and> filter is_text_turn (messages (fst c)) = [user_turn q]
      \<and> system (fst c) = build_system_content h"
    by blast
  with ne first show ?thesis unfolding sc ut by (intro conjI)
qed


theorem conversation_seeded_witness:
  "map (\<lambda>c. system (fst c))
     (api_calls (events generator ''What is Python?'' (Some ''User: hi'') (Some search_tools)
        (Some returning_tool_manager)
        [tool_use_response ''search_course_content'' ''t1'' [(''query'', ''python'')],
         text_response ''Python is a language'']))
     = [SYSTEM_PROMPT @ ''\<newline>\<newline>Previous conversation:\<newline>User: hi'',
        SYSTEM_PROMPT @ ''\<newline>\<newline>Previous conversation:\<newline>User: hi'']
   \<and> map (\<lambda>c. filter is_text_turn (messages (fst c)))
     (api_calls (events generator ''What is Python?'' (Some ''User: hi'') (Some search_tools)
        (Some returning_tool_manager)
        [tool_use_response ''search_course_content'' ''t1'' [(''query'', ''python'')],
         text_response ''Python is a language'']))
     = [[\<lparr>role = ''user'', message_content = Text ''What is Python?''\<rparr>],
        [\<lparr>role = ''user'', message_content = Text ''What is Python?''\<rparr>]]"
  using conversation_seeded [of generator "''What is Python?''" "Some ''User: hi''" "Some search_tools"
        "Some returning_tool_manager"
        "[tool_use_response ''search_course_content'' ''t1'' [(''query'', ''python'')],
         text_response ''Python is a language'']"]
  by (simp add: run_simps is_text_turn_def)

text \<open>
  Claim C9. Without a tool manager the query is exactly one event, one inference call,
  made with the base parameters: no \<^verbatim>\<open>tools\<close> and no \<^verbatim>\<open>tool_choice\<close>, whatever the
  \<^verbatim>\<open>tools\<close> argument is, and no tool is executed.
\<close>

theorem no_tool_manager_single_call:
  "events self q h tls None w
     = [ApiCall (base_params self [\<lparr>role = ''user'', message_content = Text q\<rparr>] (build_system_content h))
          (fst (client self
             (base_params self [\<lparr>role = ''user'', message_content = Text q\<rparr>] (build_system_content h)) w))]
   \<and> length (api_calls (events self q h tls None w)) = 1
   \<and> (\<forall>c\<in>set (api_calls (events self q h tls None w)).
         tools (fst c) = None \<and> tool_choice (fst c) = None)
   \<and> tool_executions (events self q h tls None w) = []"
  by (simp add: events_def observe_None first_params_def user_turn_def)

theorem no_tool_manager_single_call_witness:
  "length (api_calls (events generator ''What is Python?'' None (Some search_tools) None
      [tool_use_response ''search_course_content'' ''t1'' [(''query'', ''python'')],
       text_response ''Python is a language''])) = 1
   \<and> map (\<lambda>c. (tools (fst c), tool_choice (fst c)))
       (api_calls (events generator ''What is Python?'' None (Some search_tools) None
         [tool_use_response ''search_course_content'' ''t1'' [(''query'', ''python'')],
          text_response ''Python is a language''])) = [(None, None)]"
  using no_tool_manager_single_call [of generator "''What is Python?''" None "Some search_tools"
      "[tool_use_response ''search_course_content'' ''t1'' [(''query'', ''python'')],
       text_response ''Python is a language'']"]
  by (simp add: run_simps)

text \<open>
  Claim C10. With the empty string as conversation history the query behaves as with no
  history: the same result and the same final state of the world, and in both cases the
  system instruction of every inference call is exactly \<open>SYSTEM_PROMPT\<close>.
\<close>

theorem empty_history_is_no_history:
  "generate_response self q (Some []) tls otm w = generate_response self q None tls otm w
   \<and> (\<forall>c\<in>set (api_calls (events self q (Some []) tls otm w)). system (fst c) = SYSTEM_PROMPT)
   \<and> (\<forall>c\<in>set (api_calls (events self q None tls otm w)). system (fst c) = SYSTEM_PROMPT)"
proof -
  have "generate_response self q (Some []) tls otm w = generate_response self q None tls otm w"
    by (simp add: generate_response_def)
  moreover have "\<forall>c\<in>set (api_calls (events self q (Some []) tls otm w)). system (fst c) = SYSTEM_PROMPT"
    using observe_conversation [of self q "Some []" tls otm w] by simp
  moreover have "\<forall>c\<in>set (api_calls (events self q None tls otm w)). system (fst c) = SYSTEM_PROMPT"
    using observe_conversation [of self q None tls otm w] by simp
  ultimately show ?thesis by (intro conjI)
qed

theorem empty_history_is_no_history_witness:
  "map (\<lambda>c. system (fst c))
     (api_calls (events generator ''What is Python?'' (Some []) (Some search_tools)
        (Some returning_tool_manager)
        [tool_use_response ''search_course_content'' ''t1'' [(''query'', ''python'')],
         text_response ''Python is a language'']))
     = [SYSTEM_PROMPT, SYSTEM_PROMPT]
   \<and> generate_response generator ''What is Python?'' (Some []) (Some search_tools)
        (Some returning_tool_manager)
        [tool_use_response ''search_course_content'' ''t1'' [(''query'', ''python'')],
         text_response ''Python is a language'']
     = generate_response generator ''What is Python?'' None (Some search_tools)
        (Some returning_tool_manager)
        [tool_use_response ''search_course_content'' ''t1'' [(''query'', ''python'')],
         text_response ''Python is a language'']"
  using empty_history_is_no_history [of generator "''What is Python?''" "Some search_tools"
        "Some returning_tool_manager"
        "[tool_use_response ''search_course_content'' ''t1'' [(''query'', ''python'')],
         text_response ''Python is a language'']"]
  by (simp add: run_simps)

end
